theory Spec2Isabelle
  imports Complex_Main
begin

section \<open>Strings\<close>

text \<open>
  A Python \<^verbatim>\<open>str\<close> is a sequence of Unicode code points, and \<^verbatim>\<open>ord\<close> reads one.
  It is modelled as the list of its code points; \<open>ustr\<close> writes an ASCII literal.
\<close>

type_synonym ustring = "nat list"

definition ustr :: "string \<Rightarrow> ustring" where
  "ustr s = map of_char s"

section \<open>Category colours\<close>

text \<open>
  \<^verbatim>\<open>
  def get_category_color(category):
      colors = ['#FF6384', '#36A2EB', '#FFCE56', '#4BC0C0', '#9966FF',
                '#FF9F40', '#8AC27A', '#E763B5', '#FFC107', '#663399']
      hash_value = 0
      for char in category:
          hash_value = ord(char) + ((hash_value << 5) - hash_value)
      index = abs(hash_value) % len(colors)
      return colors[index]
  \<close>
  Python integers are unbounded, so the hash is an \<open>int\<close> and \<open><<\<close> never loses bits.
\<close>

definition colors :: "string list" where
  "colors = [''#FF6384'', ''#36A2EB'', ''#FFCE56'', ''#4BC0C0'', ''#9966FF'',
             ''#FF9F40'', ''#8AC27A'', ''#E763B5'', ''#FFC107'', ''#663399'']"

definition hash_step :: "int \<Rightarrow> nat \<Rightarrow> int" where
  "hash_step hash_value char = int char + (push_bit 5 hash_value - hash_value)"

definition hash_value :: "ustring \<Rightarrow> int" where
  "hash_value category = foldl hash_step 0 category"

definition color_index :: "ustring \<Rightarrow> nat" where
  "color_index category = nat (\<bar>hash_value category\<bar> mod int (length colors))"

definition get_category_color :: "ustring \<Rightarrow> string" where
  "get_category_color category = colors ! color_index category"

section \<open>Pagination arithmetic\<close>

text \<open>
  \<^verbatim>\<open>request.args.get(key, default, type=int)\<close> returns the default when the key is
  absent and when the conversion raises \<^verbatim>\<open>ValueError\<close>. The conversion itself is
  Python's \<^verbatim>\<open>int\<close>, taken as the parameter \<open>to_int\<close> (\<open>None\<close> where it raises).
\<close>

definition args_get_int :: "(ustring \<Rightarrow> int option) \<Rightarrow> ustring option \<Rightarrow> int \<Rightarrow> int" where
  "args_get_int to_int raw dflt =
     (case raw of
        None \<Rightarrow> dflt
      | Some s \<Rightarrow> (case to_int s of None \<Rightarrow> dflt | Some v \<Rightarrow> v))"

text \<open>
  \<^verbatim>\<open>
  if page < 1:
      page = 1
  if per_page < 1 or per_page > 100:
      per_page = 10
  offset = (page - 1) * per_page
  \<close>
\<close>

definition validate_page :: "int \<Rightarrow> int" where
  "validate_page page = (if page < 1 then 1 else page)"

definition validate_per_page :: "int \<Rightarrow> int" where
  "validate_per_page per_page = (if per_page < 1 \<or> 100 < per_page then 10 else per_page)"

record pagination =
  pg_page :: int
  pg_per_page :: int
  pg_offset :: int

text \<open>The pagination prologue shared by \<^verbatim>\<open>admin\<close> and \<^verbatim>\<open>record_transformer\<close>.\<close>

definition paginate :: "(ustring \<Rightarrow> int option) \<Rightarrow> ustring option \<Rightarrow> ustring option \<Rightarrow> pagination" where
  "paginate to_int raw_page raw_per_page =
     (let page = validate_page (args_get_int to_int raw_page 1);
          per_page = validate_per_page (args_get_int to_int raw_per_page 10)
      in \<lparr>pg_page = page, pg_per_page = per_page, pg_offset = (page - 1) * per_page\<rparr>)"

record index_pagination =
  ix_monthly_page :: int
  ix_yearly_page :: int
  ix_per_page :: int
  ix_monthly_offset :: int
  ix_yearly_offset :: int

text \<open>The pagination prologue of \<^verbatim>\<open>index\<close>, with its two page numbers.\<close>

definition index_paginate ::
  "(ustring \<Rightarrow> int option) \<Rightarrow> ustring option \<Rightarrow> ustring option \<Rightarrow> ustring option \<Rightarrow> index_pagination" where
  "index_paginate to_int raw_monthly raw_yearly raw_per_page =
     (let monthly_page = validate_page (args_get_int to_int raw_monthly 1);
          yearly_page = validate_page (args_get_int to_int raw_yearly 1);
          per_page = validate_per_page (args_get_int to_int raw_per_page 10)
      in \<lparr>ix_monthly_page = monthly_page, ix_yearly_page = yearly_page, ix_per_page = per_page,
          ix_monthly_offset = (monthly_page - 1) * per_page,
          ix_yearly_offset = (yearly_page - 1) * per_page\<rparr>)"

text \<open>
  \<^verbatim>\<open>total_pages = (total_count + per_page - 1) // per_page\<close>; Python's \<^verbatim>\<open>//\<close> is floor
  division, as \<open>div\<close> on \<open>int\<close> is.
\<close>

definition total_pages :: "int \<Rightarrow> int \<Rightarrow> int" where
  "total_pages total_count per_page = (total_count + per_page - 1) div per_page"

section \<open>Query construction of the record browser\<close>

text \<open>
  A value bound to a \<^verbatim>\<open>%s\<close> placeholder is passed to the driver separately from the
  query text.
\<close>

datatype param = PStr ustring | PInt int

text \<open>\<^verbatim>\<open>request.args.get(key, default)\<close> and the truth value of an optional string.\<close>

definition args_get :: "ustring option \<Rightarrow> ustring \<Rightarrow> ustring" where
  "args_get raw dflt = (case raw of None \<Rightarrow> dflt | Some s \<Rightarrow> s)"

definition truthy :: "ustring option \<Rightarrow> bool" where
  "truthy v = (case v of None \<Rightarrow> False | Some s \<Rightarrow> s \<noteq> [])"

text \<open>\<^verbatim>\<open>sep.join(parts)\<close>.\<close>

fun join :: "ustring \<Rightarrow> ustring list \<Rightarrow> ustring" where
  "join sep [] = []"
| "join sep [x] = x"
| "join sep (x # y # ys) = x @ sep @ join sep (y # ys)"

text \<open>
  \<^verbatim>\<open>
  valid_sort_fields = ['record_id_bank', 'transaction_date', 'currency_date', 'account',
                       'description', 'amount', 'currency', 'category']
  if sort_by not in valid_sort_fields:
      sort_by = 'transaction_date'
  if sort_order not in ['asc', 'desc']:
      sort_order = 'desc'
  \<close>
\<close>

definition valid_sort_fields :: "ustring list" where
  "valid_sort_fields =
     [ustr ''record_id_bank'', ustr ''transaction_date'', ustr ''currency_date'',
      ustr ''account'', ustr ''description'', ustr ''amount'', ustr ''currency'',
      ustr ''category'']"

definition validate_sort_by :: "ustring \<Rightarrow> ustring" where
  "validate_sort_by sort_by =
     (if sort_by \<notin> set valid_sort_fields then ustr ''transaction_date'' else sort_by)"

definition validate_sort_order :: "ustring \<Rightarrow> ustring" where
  "validate_sort_order sort_order =
     (if sort_order \<notin> set [ustr ''asc'', ustr ''desc''] then ustr ''desc'' else sort_order)"

record rt_args =
  arg_page :: "ustring option"
  arg_per_page :: "ustring option"
  arg_category :: "ustring option"
  arg_search :: "ustring option"
  arg_sort_by :: "ustring option"
  arg_sort_order :: "ustring option"

record query_plan =
  fetch_query :: ustring
  fetch_params :: "param list"
  count_query :: ustring
  count_params :: "param list"

text \<open>
  The two statements \<^verbatim>\<open>record_transformer\<close> builds, with the parameters it passes to
  each. The layout whitespace of the SQL literals is written as single blanks.
  \<^verbatim>\<open>
  params = []
  where_clauses = []
  if category_filter:
      where_clauses.append("category = %s")
      params.append(category_filter)
  if search_description:
      where_clauses.append("description ILIKE %s")
      params.append(f"%{search_description}%")
  if where_clauses:
      base_query += " WHERE " + " AND ".join(where_clauses)
  base_query += " ORDER BY " + sort_by + " " + sort_order + " LIMIT %s OFFSET %s"
  params.extend([per_page, offset])
  cursor.execute(base_query, params)
  count_query = "SELECT COUNT(*) FROM processed_records"
  if where_clauses:
      count_query += " WHERE " + " AND ".join(where_clauses)
  cursor.execute(count_query, params[:-2] if where_clauses else ())
  \<close>
\<close>

definition select_records :: ustring where
  "select_records = ustr (''SELECT record_id_bank, transaction_date, currency_date, account, ''
     @ ''description, amount, currency, category FROM processed_records '')"

definition select_count :: ustring where
  "select_count = ustr ''SELECT COUNT(*) FROM processed_records''"

definition record_transformer_queries :: "(ustring \<Rightarrow> int option) \<Rightarrow> rt_args \<Rightarrow> query_plan" where
  "record_transformer_queries to_int args =
     (let pg = paginate to_int (arg_page args) (arg_per_page args);
          category_filter = arg_category args;
          search_description = arg_search args;
          sort_by = validate_sort_by (args_get (arg_sort_by args) (ustr ''transaction_date''));
          sort_order = validate_sort_order (args_get (arg_sort_order args) (ustr ''desc''));
          params0 = [];
          where_clauses0 = [];
          where_clauses1 =
            (if truthy category_filter then where_clauses0 @ [ustr ''category = %s'']
             else where_clauses0);
          params1 =
            (if truthy category_filter then params0 @ [PStr (args_get category_filter [])]
             else params0);
          where_clauses =
            (if truthy search_description then where_clauses1 @ [ustr ''description ILIKE %s'']
             else where_clauses1);
          params2 =
            (if truthy search_description
             then params1 @ [PStr (ustr ''%'' @ args_get search_description [] @ ustr ''%'')]
             else params1);
          base_query0 =
            (if where_clauses \<noteq> []
             then select_records @ ustr '' WHERE '' @ join (ustr '' AND '') where_clauses
             else select_records);
          base_query = base_query0 @ ustr '' ORDER BY '' @ sort_by @ ustr '' '' @ sort_order
                       @ ustr '' LIMIT %s OFFSET %s'';
          params = params2 @ [PInt (pg_per_page pg), PInt (pg_offset pg)];
          count_query =
            (if where_clauses \<noteq> []
             then select_count @ ustr '' WHERE '' @ join (ustr '' AND '') where_clauses
             else select_count)
      in \<lparr>fetch_query = base_query, fetch_params = params, count_query = count_query,
          count_params = (if where_clauses \<noteq> [] then take (length params - 2) params else [])\<rparr>)"

text \<open>
  The filter a request asks for, read off the request alone: its SQL text and its bound
  values. The statements built above are compared with it.
\<close>

definition filter_sql :: "ustring option \<Rightarrow> ustring option \<Rightarrow> ustring" where
  "filter_sql category_filter search_description =
     (if truthy category_filter
      then (if truthy search_description
            then ustr '' WHERE category = %s AND description ILIKE %s''
            else ustr '' WHERE category = %s'')
      else (if truthy search_description
            then ustr '' WHERE description ILIKE %s''
            else []))"

definition filter_values :: "ustring option \<Rightarrow> ustring option \<Rightarrow> param list" where
  "filter_values category_filter search_description =
     (if truthy category_filter then [PStr (args_get category_filter [])] else [])
     @ (if truthy search_description
        then [PStr (ustr ''%'' @ args_get search_description [] @ ustr ''%'')] else [])"

section \<open>The store\<close>

text \<open>
  The table \<^verbatim>\<open>processed_records\<close>. The schema is not part of the repository, so every
  column is nullable; amounts are exact decimals, a date is a calendar day.
\<close>

record date =
  d_year :: int
  d_month :: int
  d_day :: int

record processed_record =
  record_id_bank :: "ustring option"
  transaction_date :: "date option"
  currency_date :: "date option"
  account :: "ustring option"
  description :: "ustring option"
  amount :: "rat option"
  currency :: "ustring option"
  category :: "ustring option"

type_synonym table = "processed_record list"

text \<open>
  Every call into the driver may raise. \<open>faults\<close> says which calls do, with the text of the
  exception; \<open>Execute n\<close> and \<open>Fetch n\<close> are the \<open>n\<close>-th statement of a request.
\<close>

datatype db_step = Connect | OpenCursor | Execute nat | Fetch nat | Commit | CloseCursor | CloseConn

type_synonym faults = "db_step \<Rightarrow> ustring option"

datatype exn = DatabaseError ustring | TypeError

fun exn_str :: "exn \<Rightarrow> ustring" where
  "exn_str (DatabaseError msg) = msg"
| "exn_str TypeError =
     ustr ''int() argument must be a string, a bytes-like object or a real number, not ''
     @ [39] @ ustr ''NoneType'' @ [39]"

type_synonym response = "ustring \<times> nat"

section \<open>Bulk mutations\<close>

text \<open>\<^verbatim>\<open>s.split(',')\<close> for a one-character separator, and \<^verbatim>\<open>s.strip()\<close>.\<close>

fun str_split :: "nat \<Rightarrow> ustring \<Rightarrow> ustring list" where
  "str_split sep [] = [[]]"
| "str_split sep (c # cs) =
     (if c = sep then [] # str_split sep cs
      else (case str_split sep cs of [] \<Rightarrow> [[c]] | p # ps \<Rightarrow> (c # p) # ps))"

text \<open>The code points for which \<^verbatim>\<open>str.isspace\<close> holds; \<^verbatim>\<open>strip\<close> removes exactly these.\<close>

definition is_space :: "nat \<Rightarrow> bool" where
  "is_space c = ((9 \<le> c \<and> c \<le> 13) \<or> (28 \<le> c \<and> c \<le> 32) \<or> c = 133 \<or> c = 160
     \<or> c = 5760 \<or> (8192 \<le> c \<and> c \<le> 8202) \<or> c = 8232 \<or> c = 8233 \<or> c = 8239
     \<or> c = 8287 \<or> c = 12288)"

definition str_strip :: "ustring \<Rightarrow> ustring" where
  "str_strip s = rev (dropWhile is_space (rev (dropWhile is_space s)))"

text \<open>\<^verbatim>\<open>record_ids = [id.strip() for id in record_ids_str.split(',') if id.strip()]\<close>\<close>

definition parse_record_ids :: "ustring \<Rightarrow> ustring list" where
  "parse_record_ids record_ids_str =
     map str_strip (filter (\<lambda>id. str_strip id \<noteq> []) (str_split 44 record_ids_str))"

text \<open>\<^verbatim>\<open>str(n)\<close> for a length.\<close>

fun str_nat :: "nat \<Rightarrow> ustring" where
  "str_nat n = (if n < 10 then [48 + n] else str_nat (n div 10) @ [48 + n mod 10])"

declare str_nat.simps [simp del]

text \<open>
  \<^verbatim>\<open>UPDATE processed_records SET category = %s WHERE record_id_bank = ANY(%s)\<close> and
  \<^verbatim>\<open>DELETE FROM processed_records WHERE record_id_bank = ANY(%s)\<close>; a row whose id is
  \<^verbatim>\<open>NULL\<close> matches nothing.
\<close>

definition id_matches :: "ustring list \<Rightarrow> processed_record \<Rightarrow> bool" where
  "id_matches record_ids r =
     (case record_id_bank r of None \<Rightarrow> False | Some i \<Rightarrow> i \<in> set record_ids)"

definition sql_update :: "ustring \<Rightarrow> ustring list \<Rightarrow> table \<Rightarrow> table" where
  "sql_update new_category record_ids db =
     map (\<lambda>r. if id_matches record_ids r then r\<lparr>category := Some new_category\<rparr> else r) db"

definition sql_delete :: "ustring list \<Rightarrow> table \<Rightarrow> table" where
  "sql_delete record_ids db = filter (\<lambda>r. \<not> id_matches record_ids r) db"

text \<open>
  The body of the \<^verbatim>\<open>try\<close> of \<^verbatim>\<open>update_categories\<close>: what it returns or raises, and the
  table as the store holds it afterwards. The statement works on the connection's
  transaction; only \<^verbatim>\<open>conn.commit()\<close> writes it to the table, and a connection dropped
  without a commit leaves the table as it was.
\<close>

definition update_categories_try ::
  "faults \<Rightarrow> ustring option \<Rightarrow> ustring option \<Rightarrow> table \<Rightarrow> (exn + response) \<times> table" where
  "update_categories_try faults record_ids_str new_category db =
     (if \<not> truthy record_ids_str \<or> \<not> truthy new_category
      then (Inr (ustr ''Missing record IDs or category'', 400), db)
      else let record_ids = parse_record_ids (args_get record_ids_str []) in
        if record_ids = [] then (Inr (ustr ''No valid record IDs provided'', 400), db)
        else (case faults Connect of Some e \<Rightarrow> (Inl (DatabaseError e), db) | None \<Rightarrow>
             (case faults OpenCursor of Some e \<Rightarrow> (Inl (DatabaseError e), db) | None \<Rightarrow>
             (case faults (Execute 0) of Some e \<Rightarrow> (Inl (DatabaseError e), db) | None \<Rightarrow>
             (let pending = sql_update (args_get new_category []) record_ids db in
             (case faults Commit of Some e \<Rightarrow> (Inl (DatabaseError e), db) | None \<Rightarrow>
             (case faults CloseCursor of Some e \<Rightarrow> (Inl (DatabaseError e), pending) | None \<Rightarrow>
             (case faults CloseConn of Some e \<Rightarrow> (Inl (DatabaseError e), pending) | None \<Rightarrow>
               (Inr (ustr ''Successfully updated '' @ str_nat (length record_ids)
                     @ ustr '' records to category '' @ [39] @ args_get new_category [] @ [39],
                     200), pending)))))))))"

definition update_categories ::
  "faults \<Rightarrow> ustring option \<Rightarrow> ustring option \<Rightarrow> table \<Rightarrow> response \<times> table" where
  "update_categories faults record_ids_str new_category db =
     (case update_categories_try faults record_ids_str new_category db of
        (Inl e, db') \<Rightarrow> ((ustr ''Error updating categories: '' @ exn_str e, 500), db')
      | (Inr r, db') \<Rightarrow> (r, db'))"

definition delete_records_try ::
  "faults \<Rightarrow> ustring option \<Rightarrow> table \<Rightarrow> (exn + response) \<times> table" where
  "delete_records_try faults record_ids_str db =
     (if \<not> truthy record_ids_str
      then (Inr (ustr ''Missing record IDs'', 400), db)
      else let record_ids = parse_record_ids (args_get record_ids_str []) in
        if record_ids = [] then (Inr (ustr ''No valid record IDs provided'', 400), db)
        else (case faults Connect of Some e \<Rightarrow> (Inl (DatabaseError e), db) | None \<Rightarrow>
             (case faults OpenCursor of Some e \<Rightarrow> (Inl (DatabaseError e), db) | None \<Rightarrow>
             (case faults (Execute 0) of Some e \<Rightarrow> (Inl (DatabaseError e), db) | None \<Rightarrow>
             (let pending = sql_delete record_ids db in
             (case faults Commit of Some e \<Rightarrow> (Inl (DatabaseError e), db) | None \<Rightarrow>
             (case faults CloseCursor of Some e \<Rightarrow> (Inl (DatabaseError e), pending) | None \<Rightarrow>
             (case faults CloseConn of Some e \<Rightarrow> (Inl (DatabaseError e), pending) | None \<Rightarrow>
               (Inr (ustr ''Successfully deleted '' @ str_nat (length record_ids)
                     @ ustr '' records'', 200), pending)))))))))"

definition delete_records :: "faults \<Rightarrow> ustring option \<Rightarrow> table \<Rightarrow> response \<times> table" where
  "delete_records faults record_ids_str db =
     (case delete_records_try faults record_ids_str db of
        (Inl e, db') \<Rightarrow> ((ustr ''Error deleting records: '' @ exn_str e, 500), db')
      | (Inr r, db') \<Rightarrow> (r, db'))"

section \<open>Reports\<close>

subsection \<open>What the store computes\<close>

text \<open>
  The date functions of the store, which the repository does not contain:
  \<^verbatim>\<open>CURRENT_DATE\<close>, \<^verbatim>\<open>EXTRACT(WEEK FROM d)\<close>, and the conversion of a string parameter
  to a date (\<open>None\<close> where the store rejects the string and the statement fails).
\<close>

record calendar =
  current_date :: date
  week_of :: "date \<Rightarrow> int"
  to_date :: "ustring \<Rightarrow> date option"

definition date_le :: "date \<Rightarrow> date \<Rightarrow> bool" where
  "date_le a b =
     (d_year a < d_year b
      \<or> (d_year a = d_year b
          \<and> (d_month a < d_month b \<or> (d_month a = d_month b \<and> d_day a \<le> d_day b))))"

text \<open>
  The date condition \<^verbatim>\<open>get_spending_data\<close> puts into the \<^verbatim>\<open>WHERE\<close> clause:
  \<^item> \<open>Between\<close>: \<^verbatim>\<open>transaction_date >= %s AND transaction_date <= %s\<close>
  \<^item> \<open>CurrentDay\<close>: \<^verbatim>\<open>DATE(transaction_date) = CURRENT_DATE\<close>
  \<^item> \<open>CurrentWeek\<close>, \<open>CurrentMonth\<close>, \<open>CurrentYear\<close>: the \<^verbatim>\<open>EXTRACT\<close> comparisons
    with \<^verbatim>\<open>CURRENT_DATE\<close>
  \<^item> \<open>NoDateFilter\<close>: \<^verbatim>\<open>1=1\<close>
\<close>

datatype date_filter =
  Between ustring ustring | CurrentDay | CurrentWeek | CurrentMonth | CurrentYear | NoDateFilter

definition date_filter_ok :: "calendar \<Rightarrow> date_filter \<Rightarrow> bool" where
  "date_filter_ok cal flt =
     (case flt of
        Between a b \<Rightarrow> to_date cal a \<noteq> None \<and> to_date cal b \<noteq> None
      | _ \<Rightarrow> True)"

text \<open>A row passes \<^verbatim>\<open>WHERE\<close> when the condition is true; on a \<^verbatim>\<open>NULL\<close> date it is not.\<close>

fun date_filter_holds :: "calendar \<Rightarrow> date_filter \<Rightarrow> date option \<Rightarrow> bool" where
  "date_filter_holds cal NoDateFilter td = True"
| "date_filter_holds cal flt None = False"
| "date_filter_holds cal (Between a b) (Some d) =
     (case to_date cal a of
        None \<Rightarrow> False
      | Some lo \<Rightarrow> (case to_date cal b of None \<Rightarrow> False | Some hi \<Rightarrow> date_le lo d \<and> date_le d hi))"
| "date_filter_holds cal CurrentDay (Some d) = (d = current_date cal)"
| "date_filter_holds cal CurrentWeek (Some d) =
     (d_year d = d_year (current_date cal) \<and> week_of cal d = week_of cal (current_date cal))"
| "date_filter_holds cal CurrentMonth (Some d) =
     (d_year d = d_year (current_date cal) \<and> d_month d = d_month (current_date cal))"
| "date_filter_holds cal CurrentYear (Some d) = (d_year d = d_year (current_date cal))"

text \<open>\<^verbatim>\<open>AND category = %s\<close>, added when the category filter is truthy.\<close>

definition category_holds :: "ustring option \<Rightarrow> ustring option \<Rightarrow> bool" where
  "category_holds category_filter c =
     (if truthy category_filter then c = Some (args_get category_filter []) else True)"

text \<open>\<^verbatim>\<open>SUM\<close> skips \<^verbatim>\<open>NULL\<close> and is \<^verbatim>\<open>NULL\<close> when nothing is left.\<close>

definition sql_sum :: "rat option list \<Rightarrow> rat option" where
  "sql_sum xs = (case List.map_filter id xs of [] \<Rightarrow> None | a # as \<Rightarrow> Some (sum_list (a # as)))"

text \<open>
  \<^verbatim>\<open>ORDER BY\<close> as a stable insertion sort: \<open>first x y\<close> says that \<open>x\<close> may stand before
  \<open>y\<close>. The store leaves the order of rows with equal keys open; the model keeps them as
  they came. Under \<^verbatim>\<open>DESC\<close> a \<^verbatim>\<open>NULL\<close> key comes first.
\<close>

fun insert_by :: "('a \<Rightarrow> 'a \<Rightarrow> bool) \<Rightarrow> 'a \<Rightarrow> 'a list \<Rightarrow> 'a list" where
  "insert_by first x [] = [x]"
| "insert_by first x (y # ys) = (if first x y then x # y # ys else y # insert_by first x ys)"

definition order_by :: "('a \<Rightarrow> 'a \<Rightarrow> bool) \<Rightarrow> 'a list \<Rightarrow> 'a list" where
  "order_by first xs = foldr (insert_by first) xs []"

definition desc_nulls_first :: "'a::linorder option \<Rightarrow> 'a option \<Rightarrow> bool" where
  "desc_nulls_first a b =
     (case a of None \<Rightarrow> True | Some x \<Rightarrow> (case b of None \<Rightarrow> False | Some y \<Rightarrow> y \<le> x))"

subsection \<open>Spending by category\<close>

text \<open>
  \<^verbatim>\<open>
  if start_date and end_date:
      date_filter = "transaction_date >= %s AND transaction_date <= %s"
      params = (start_date, end_date)
  else:
      if time_period == 'day': ...
      elif time_period == 'week': ...
      elif time_period == 'month': ...
      elif time_period == 'year': ...
      else:
          date_filter = "1=1"
  \<close>
\<close>

definition choose_date_filter ::
  "ustring \<Rightarrow> ustring option \<Rightarrow> ustring option \<Rightarrow> date_filter" where
  "choose_date_filter time_period start_date end_date =
     (if truthy start_date \<and> truthy end_date
      then Between (args_get start_date []) (args_get end_date [])
      else if time_period = ustr ''day'' then CurrentDay
      else if time_period = ustr ''week'' then CurrentWeek
      else if time_period = ustr ''month'' then CurrentMonth
      else if time_period = ustr ''year'' then CurrentYear
      else NoDateFilter)"

text \<open>
  \<^verbatim>\<open>
  SELECT COALESCE(category, 'Uncategorized') as category, SUM(amount) as total_amount
  FROM processed_records WHERE ...
  GROUP BY category
  ORDER BY total_amount DESC
  \<close>
  The store is PostgreSQL (the driver is \<^verbatim>\<open>psycopg2\<close>). There a name in \<^verbatim>\<open>GROUP BY\<close> that is
  both an input column and an output column means the input column, so the groups are those
  of the stored \<^verbatim>\<open>category\<close>, \<^verbatim>\<open>NULL\<close> being a group of its own; \<^verbatim>\<open>COALESCE\<close> is applied
  to each group's key afterwards. A name in \<^verbatim>\<open>ORDER BY\<close> means the output column.
\<close>

definition spending_query ::
  "calendar \<Rightarrow> date_filter \<Rightarrow> ustring option \<Rightarrow> table \<Rightarrow> (ustring option \<times> rat option) list" where
  "spending_query cal flt category_filter db =
     (let rows = filter (\<lambda>r. date_filter_holds cal flt (transaction_date r)
                            \<and> category_holds category_filter (category r)) db;
          groups = remdups (map category rows);
          result = map (\<lambda>k. (Some (case k of None \<Rightarrow> ustr ''Uncategorized'' | Some c \<Rightarrow> c),
                              sql_sum (map amount (filter (\<lambda>r. category r = k) rows)))) groups
      in order_by (\<lambda>a b. desc_nulls_first (snd a) (snd b)) result)"

record spending_item =
  item_category :: ustring
  item_amount :: rat

text \<open>
  \<^verbatim>\<open>
  for record in records:
      category = str(record[0]) if record[0] is not None else 'Uncategorized'
      amount = float(record[1]) if record[1] is not None else 0.0
      spending_data.append({'category': category, 'amount': amount})
      total_spending += amount
  \<close>
  The conversions of a string and of a decimal cannot raise, so the inner \<^verbatim>\<open>except\<close> is
  never entered. Amounts are kept exact; Python's \<^verbatim>\<open>float\<close> rounds them.
\<close>

definition format_record ::
  "spending_item list \<times> rat \<Rightarrow> ustring option \<times> rat option \<Rightarrow> spending_item list \<times> rat" where
  "format_record acc record =
     (let category = (case fst record of None \<Rightarrow> ustr ''Uncategorized'' | Some c \<Rightarrow> c);
          amount = (case snd record of None \<Rightarrow> 0 | Some a \<Rightarrow> a)
      in (fst acc @ [\<lparr>item_category = category, item_amount = amount\<rparr>], snd acc + amount))"

definition get_spending_data_try ::
  "faults \<Rightarrow> calendar \<Rightarrow> ustring \<Rightarrow> ustring option \<Rightarrow> ustring option \<Rightarrow> ustring option \<Rightarrow> table
   \<Rightarrow> exn + (spending_item list \<times> rat)" where
  "get_spending_data_try faults cal time_period category_filter start_date end_date db =
     (let flt = choose_date_filter time_period start_date end_date in
      case faults Connect of Some e \<Rightarrow> Inl (DatabaseError e) | None \<Rightarrow>
     (case faults OpenCursor of Some e \<Rightarrow> Inl (DatabaseError e) | None \<Rightarrow>
     (case faults (Execute 0) of Some e \<Rightarrow> Inl (DatabaseError e) | None \<Rightarrow>
     (if \<not> date_filter_ok cal flt
      then Inl (DatabaseError (ustr ''invalid input syntax for type date''))
      else
     (case faults (Fetch 0) of Some e \<Rightarrow> Inl (DatabaseError e) | None \<Rightarrow>
     (let records = spending_query cal flt category_filter db;
          result = foldl format_record ([], 0) records in
     (case faults CloseCursor of Some e \<Rightarrow> Inl (DatabaseError e) | None \<Rightarrow>
     (case faults CloseConn of Some e \<Rightarrow> Inl (DatabaseError e) | None \<Rightarrow>
        Inr result))))))))"

text \<open>\<^verbatim>\<open>except Exception as e: ... return [], 0\<close>\<close>

definition get_spending_data ::
  "faults \<Rightarrow> calendar \<Rightarrow> ustring \<Rightarrow> ustring option \<Rightarrow> ustring option \<Rightarrow> ustring option \<Rightarrow> table
   \<Rightarrow> spending_item list \<times> rat" where
  "get_spending_data faults cal time_period category_filter start_date end_date db =
     (case get_spending_data_try faults cal time_period category_filter start_date end_date db of
        Inl e \<Rightarrow> ([], 0)
      | Inr r \<Rightarrow> r)"

subsection \<open>Monthly and yearly balances\<close>

text \<open>
  \<^verbatim>\<open>
  CASE WHEN SUM(amount) > 0 THEN 'positive'
       WHEN SUM(amount) < 0 THEN 'negative'
       ELSE 'zero' END
  \<close>
  A comparison with \<^verbatim>\<open>NULL\<close> is not true, so a \<^verbatim>\<open>NULL\<close> sum falls to \<^verbatim>\<open>ELSE\<close>.
\<close>

definition balance_status :: "rat option \<Rightarrow> ustring" where
  "balance_status total_amount =
     (case total_amount of
        None \<Rightarrow> ustr ''zero''
      | Some v \<Rightarrow> (if 0 < v then ustr ''positive''
                   else if v < 0 then ustr ''negative'' else ustr ''zero''))"

text \<open>
  The monthly statement groups by \<^verbatim>\<open>EXTRACT(YEAR ...)\<close> and \<^verbatim>\<open>EXTRACT(MONTH ...)\<close> of
  \<^verbatim>\<open>transaction_date\<close> and orders by \<^verbatim>\<open>year DESC, month DESC\<close>; the yearly one groups
  by the year and orders by \<^verbatim>\<open>year DESC\<close>. Both parts of a \<^verbatim>\<open>NULL\<close> date are \<^verbatim>\<open>NULL\<close>.
\<close>

type_synonym monthly_row = "int option \<times> int option \<times> rat option \<times> ustring"

type_synonym yearly_row = "int option \<times> rat option \<times> ustring"

definition year_month :: "processed_record \<Rightarrow> int option \<times> int option" where
  "year_month r = (map_option d_year (transaction_date r), map_option d_month (transaction_date r))"

definition monthly_query :: "table \<Rightarrow> monthly_row list" where
  "monthly_query db =
     (let groups = remdups (map year_month db);
          result = map (\<lambda>k. let total_amount =
                                   sql_sum (map amount (filter (\<lambda>r. year_month r = k) db))
                             in (fst k, snd k, total_amount, balance_status total_amount))
                       groups
      in order_by (\<lambda>a b. if fst a = fst b
                          then desc_nulls_first (fst (snd a)) (fst (snd b))
                          else desc_nulls_first (fst a) (fst b)) result)"

definition yearly_query :: "table \<Rightarrow> yearly_row list" where
  "yearly_query db =
     (let groups = remdups (map (\<lambda>r. fst (year_month r)) db);
          result = map (\<lambda>k. let total_amount =
                                   sql_sum (map amount (filter (\<lambda>r. fst (year_month r) = k) db))
                             in (k, total_amount, balance_status total_amount)) groups
      in order_by (\<lambda>a b. desc_nulls_first (fst a) (fst b)) result)"

record monthly_balance =
  mb_year :: int
  mb_month :: int
  mb_month_name :: ustring
  mb_amount :: rat
  mb_status :: ustring

record yearly_balance =
  yb_year :: int
  yb_amount :: rat
  yb_status :: ustring

definition month_names :: "ustring list" where
  "month_names =
     [ustr ''January'', ustr ''February'', ustr ''March'', ustr ''April'', ustr ''May'',
      ustr ''June'', ustr ''July'', ustr ''August'', ustr ''September'', ustr ''October'',
      ustr ''November'', ustr ''December'']"

text \<open>
  \<^verbatim>\<open>
  for record in monthly_balances:
      year = int(record[0])
      month = int(record[1])
      amount = float(record[2]) if record[2] is not None else 0.0
      status = record[3]
      month_name = month_names[month - 1] if 1 <= month <= 12 else 'Unknown'
      formatted_monthly.append({...})
  \<close>
  \<^verbatim>\<open>int(None)\<close> raises \<^verbatim>\<open>TypeError\<close>.
\<close>

fun format_monthly :: "monthly_row list \<Rightarrow> exn + monthly_balance list" where
  "format_monthly [] = Inr []"
| "format_monthly ((y, m, a, status) # records) =
     (case y of None \<Rightarrow> Inl TypeError | Some year \<Rightarrow>
     (case m of None \<Rightarrow> Inl TypeError | Some month \<Rightarrow>
     (let amount = (case a of None \<Rightarrow> 0 | Some v \<Rightarrow> v);
          month_name = (if 1 \<le> month \<and> month \<le> 12 then month_names ! nat (month - 1)
                        else ustr ''Unknown'')
      in (case format_monthly records of
            Inl e \<Rightarrow> Inl e
          | Inr rest \<Rightarrow> Inr (\<lparr>mb_year = year, mb_month = month, mb_month_name = month_name,
                                mb_amount = amount, mb_status = status\<rparr> # rest)))))"

fun format_yearly :: "yearly_row list \<Rightarrow> exn + yearly_balance list" where
  "format_yearly [] = Inr []"
| "format_yearly ((y, a, status) # records) =
     (case y of None \<Rightarrow> Inl TypeError | Some year \<Rightarrow>
     (let amount = (case a of None \<Rightarrow> 0 | Some v \<Rightarrow> v)
      in (case format_yearly records of
            Inl e \<Rightarrow> Inl e
          | Inr rest \<Rightarrow> Inr (\<lparr>yb_year = year, yb_amount = amount, yb_status = status\<rparr> # rest))))"

definition get_monthly_yearly_balances_try ::
  "faults \<Rightarrow> table \<Rightarrow> exn + (monthly_balance list \<times> yearly_balance list)" where
  "get_monthly_yearly_balances_try faults db =
     (case faults Connect of Some e \<Rightarrow> Inl (DatabaseError e) | None \<Rightarrow>
     (case faults OpenCursor of Some e \<Rightarrow> Inl (DatabaseError e) | None \<Rightarrow>
     (case faults (Execute 0) of Some e \<Rightarrow> Inl (DatabaseError e) | None \<Rightarrow>
     (case faults (Fetch 0) of Some e \<Rightarrow> Inl (DatabaseError e) | None \<Rightarrow>
     (let monthly_balances = monthly_query db in
     (case faults (Execute 1) of Some e \<Rightarrow> Inl (DatabaseError e) | None \<Rightarrow>
     (case faults (Fetch 1) of Some e \<Rightarrow> Inl (DatabaseError e) | None \<Rightarrow>
     (let yearly_balances = yearly_query db in
     (case format_monthly monthly_balances of Inl e \<Rightarrow> Inl e | Inr formatted_monthly \<Rightarrow>
     (case format_yearly yearly_balances of Inl e \<Rightarrow> Inl e | Inr formatted_yearly \<Rightarrow>
     (case faults CloseCursor of Some e \<Rightarrow> Inl (DatabaseError e) | None \<Rightarrow>
     (case faults CloseConn of Some e \<Rightarrow> Inl (DatabaseError e) | None \<Rightarrow>
        Inr (formatted_monthly, formatted_yearly)))))))))))))"

text \<open>\<^verbatim>\<open>except Exception as e: ... return [], []\<close>\<close>

definition get_monthly_yearly_balances ::
  "faults \<Rightarrow> table \<Rightarrow> monthly_balance list \<times> yearly_balance list" where
  "get_monthly_yearly_balances faults db =
     (case get_monthly_yearly_balances_try faults db of
        Inl e \<Rightarrow> ([], [])
      | Inr r \<Rightarrow> r)"

section \<open>Example rows\<close>

text \<open>Stored rows used in the examples below.\<close>

definition row_A :: processed_record where
  "row_A = \<lparr>record_id_bank = Some (ustr ''A''), transaction_date = None, currency_date = None,
            account = None, description = None, amount = Some 5, currency = None,
            category = None\<rparr>"

definition row_of :: "ustring option \<Rightarrow> date option \<Rightarrow> rat \<Rightarrow> processed_record" where
  "row_of c d a = \<lparr>record_id_bank = None, transaction_date = d, currency_date = None,
                   account = None, description = None, amount = Some a, currency = None,
                   category = c\<rparr>"

section \<open>Properties\<close>

subsection \<open>Category colours\<close>

lemma hash_value_Nil: "hash_value [] = 0"
  by (simp add: hash_value_def)

lemma hash_value_snoc:
  "hash_value (cs @ [c]) = int c + (push_bit 5 (hash_value cs) - hash_value cs)"
  by (simp add: hash_value_def hash_step_def)

lemma hash_step_31: "hash_step h c = int c + 31 * h"
  by (simp add: hash_step_def push_bit_eq_mult)

lemma foldl_hash_step_nonneg: "0 \<le> h \<Longrightarrow> 0 \<le> foldl hash_step h cs"
  by (induction cs arbitrary: h) (simp_all add: hash_step_31)

lemma hash_value_nonneg: "0 \<le> hash_value cs"
  by (simp add: hash_value_def foldl_hash_step_nonneg)

lemma length_colors: "length colors = 10"
  by (simp add: colors_def)

lemma color_index_less: "color_index c < 10"
proof -
  have "\<bar>hash_value c\<bar> mod 10 < 10" by simp
  moreover have "0 \<le> \<bar>hash_value c\<bar> mod 10" by simp
  ultimately show ?thesis
    by (simp add: color_index_def length_colors)
qed

text \<open>
  C4. For every string, the empty one included, the colour is an entry of the fixed
  palette of 10 colours, namely the entry at \<open>abs h mod 10\<close>, where \<open>h\<close> starts at 0 and
  each character \<open>c\<close> replaces it by \<open>code c + ((h << 5) - h)\<close>. The function reads and
  writes no state: its value depends on the string alone.
\<close>

theorem get_category_color_palette:
  "get_category_color c \<in> set colors
   \<and> length colors = 10
   \<and> get_category_color c = colors ! nat (\<bar>hash_value c\<bar> mod 10)
   \<and> hash_value [] = 0
   \<and> hash_value (cs @ [x]) = int x + (push_bit 5 (hash_value cs) - hash_value cs)"
proof -
  have "color_index c < length colors"
    using color_index_less [of c] by (simp add: length_colors)
  then have "get_category_color c \<in> set colors"
    unfolding get_category_color_def by (rule nth_mem)
  moreover have "get_category_color c = colors ! nat (\<bar>hash_value c\<bar> mod 10)"
    by (simp add: get_category_color_def color_index_def length_colors)
  ultimately show ?thesis
    by (simp add: length_colors hash_value_Nil hash_value_snoc)
qed

subsection \<open>Pagination\<close>

lemma validate_page_ge: "1 \<le> validate_page p"
  by (simp add: validate_page_def)

lemma validate_per_page_range: "1 \<le> validate_per_page n \<and> validate_per_page n \<le> 100"
  by (simp add: validate_per_page_def)

lemma validate_per_page_invalid: "n \<le> 0 \<or> 100 < n \<Longrightarrow> validate_per_page n = 10"
  by (auto simp: validate_per_page_def)

lemma args_get_int_non_numeric: "to_int s = None \<Longrightarrow> args_get_int to_int (Some s) d = d"
  by (simp add: args_get_int_def)

lemma args_get_int_numeric: "to_int s = Some v \<Longrightarrow> args_get_int to_int (Some s) d = v"
  by (simp add: args_get_int_def)

text \<open>
  C8. Whatever the raw \<^verbatim>\<open>page\<close> and \<^verbatim>\<open>per_page\<close> (absent, not a number, or any integer),
  the normalized page is at least 1, the normalized page size is between 1 and 100, a
  page size that is not a number, is at most 0 or is above 100 becomes 10, and the offset is
  \<open>(page - 1) * per_page\<close>; the same holds for the two page numbers of \<^verbatim>\<open>index\<close>.
\<close>

theorem pagination_normalized:
  "1 \<le> pg_page (paginate to_int raw_page raw_per_page)
   \<and> 1 \<le> pg_per_page (paginate to_int raw_page raw_per_page)
   \<and> pg_per_page (paginate to_int raw_page raw_per_page) \<le> 100
   \<and> pg_offset (paginate to_int raw_page raw_per_page)
       = (pg_page (paginate to_int raw_page raw_per_page) - 1)
         * pg_per_page (paginate to_int raw_page raw_per_page)
   \<and> (to_int s = None \<longrightarrow> pg_per_page (paginate to_int raw_page (Some s)) = 10)
   \<and> (to_int s = Some v \<and> (v \<le> 0 \<or> 100 < v)
        \<longrightarrow> pg_per_page (paginate to_int raw_page (Some s)) = 10)
   \<and> 1 \<le> ix_monthly_page (index_paginate to_int raw_monthly raw_yearly raw_per_page)
   \<and> 1 \<le> ix_yearly_page (index_paginate to_int raw_monthly raw_yearly raw_per_page)
   \<and> 1 \<le> ix_per_page (index_paginate to_int raw_monthly raw_yearly raw_per_page)
   \<and> ix_per_page (index_paginate to_int raw_monthly raw_yearly raw_per_page) \<le> 100
   \<and> ix_monthly_offset (index_paginate to_int raw_monthly raw_yearly raw_per_page)
       = (ix_monthly_page (index_paginate to_int raw_monthly raw_yearly raw_per_page) - 1)
         * ix_per_page (index_paginate to_int raw_monthly raw_yearly raw_per_page)
   \<and> ix_yearly_offset (index_paginate to_int raw_monthly raw_yearly raw_per_page)
       = (ix_yearly_page (index_paginate to_int raw_monthly raw_yearly raw_per_page) - 1)
         * ix_per_page (index_paginate to_int raw_monthly raw_yearly raw_per_page)
   \<and> (to_int s = None
        \<longrightarrow> ix_per_page (index_paginate to_int raw_monthly raw_yearly (Some s)) = 10)
   \<and> (to_int s = Some v \<and> (v \<le> 0 \<or> 100 < v)
        \<longrightarrow> ix_per_page (index_paginate to_int raw_monthly raw_yearly (Some s)) = 10)"
proof -
  have a: "to_int s = None \<Longrightarrow> validate_per_page (args_get_int to_int (Some s) 10) = 10"
    by (simp add: args_get_int_non_numeric validate_per_page_def)
  have b: "to_int s = Some v \<and> (v \<le> 0 \<or> 100 < v)
           \<Longrightarrow> validate_per_page (args_get_int to_int (Some s) 10) = 10"
    by (auto simp: args_get_int_numeric validate_per_page_invalid)
  show ?thesis
    using a b
    by (simp add: paginate_def index_paginate_def Let_def validate_page_ge
        validate_per_page_range)
qed

theorem pagination_normalized_witness:
  "pg_page (paginate (\<lambda>s. if s = ustr ''abc'' then None else Some 500)
             (Some (ustr ''0'')) (Some (ustr ''abc''))) = 500
   \<and> pg_per_page (paginate (\<lambda>s. if s = ustr ''abc'' then None else Some 500)
             (Some (ustr ''0'')) (Some (ustr ''abc''))) = 10
   \<and> pg_per_page (paginate (\<lambda>s. if s = ustr ''abc'' then None else Some 500)
             (Some (ustr ''0'')) (Some (ustr ''500''))) = 10
   \<and> pg_offset (paginate (\<lambda>s. if s = ustr ''abc'' then None else Some 500)
             (Some (ustr ''0'')) (Some (ustr ''abc''))) = 4990"
  using pagination_normalized
    [of "\<lambda>s. if s = ustr ''abc'' then None else Some 500" "Some (ustr ''0'')"
        "Some (ustr ''abc'')" "ustr ''abc''" 500 None None]
    pagination_normalized
    [of "\<lambda>s. if s = ustr ''abc'' then None else Some 500" "Some (ustr ''0'')"
        "Some (ustr ''abc'')" "ustr ''500''" 500 None None]
  by (simp add: paginate_def args_get_int_def validate_page_def validate_per_page_def ustr_def)

subsection \<open>Page counts\<close>

lemma total_pages_ceiling:
  assumes p: "1 \<le> p"
  shows "total_pages t p = \<lceil>real_of_int t / real_of_int p\<rceil>"
proof -
  define q where "q = (t + p - 1) div p"
  define r where "r = (t + p - 1) mod p"
  have eq: "t + p - 1 = q * p + r"
    by (simp add: q_def r_def)
  have r0: "0 \<le> r" and rp: "r < p"
    using p by (simp_all add: r_def)
  have le: "t \<le> q * p" using eq rp by linarith
  have gt: "(q - 1) * p < t"
  proof -
    have "(q - 1) * p = q * p - p" by (simp add: algebra_simps)
    then show ?thesis using eq r0 by linarith
  qed
  have pos: "0 < real_of_int p" using p by simp
  have "real_of_int t \<le> real_of_int q * real_of_int p"
    using le by (metis of_int_le_iff of_int_mult)
  then have up: "real_of_int t / real_of_int p \<le> real_of_int q"
    using pos by (simp add: pos_divide_le_eq)
  have "(real_of_int q - 1) * real_of_int p < real_of_int t"
    using gt by (metis of_int_less_iff of_int_mult of_int_diff of_int_1)
  then have lo: "real_of_int q - 1 < real_of_int t / real_of_int p"
    using pos by (simp add: pos_less_divide_eq)
  have "\<lceil>real_of_int t / real_of_int p\<rceil> = q"
    using lo up by (rule ceiling_unique)
  then show ?thesis by (simp add: total_pages_def q_def)
qed

text \<open>
  C9. For a row count of at least 0 and a page size between 1 and 100, the page count
  \<open>(total_count + per_page - 1) div per_page\<close> is the ceiling of
  \<open>total_count / per_page\<close>, and it is 0 when there are no rows.
\<close>

theorem total_pages_is_ceiling:
  "0 \<le> total_count \<Longrightarrow> 1 \<le> per_page \<Longrightarrow> per_page \<le> 100 \<Longrightarrow>
     total_pages total_count per_page = \<lceil>real_of_int total_count / real_of_int per_page\<rceil>
     \<and> total_pages 0 per_page = 0"
  using total_pages_ceiling [of per_page total_count]
  by (simp add: total_pages_def)

theorem total_pages_is_ceiling_witness:
  "(0::int) \<le> 25 \<and> (1::int) \<le> 10 \<and> (10::int) \<le> 100
   \<and> total_pages 25 10 = \<lceil>real_of_int 25 / real_of_int 10\<rceil>
   \<and> total_pages 25 10 = 3 \<and> total_pages 0 10 = 0"
  using total_pages_is_ceiling [of 25 10]
  by (simp add: total_pages_def)

subsection \<open>Record browser queries\<close>

lemma ustr_append: "ustr (a @ b) = ustr a @ ustr b"
  by (simp add: ustr_def)

lemma ustr_Nil: "ustr [] = []"
  by (simp add: ustr_def)

lemma filter_sql_text:
  "filter_sql c s =
     (if truthy c \<or> truthy s
      then ustr '' WHERE '' @ join (ustr '' AND '')
             ((if truthy c then [ustr ''category = %s''] else [])
              @ (if truthy s then [ustr ''description ILIKE %s''] else []))
      else [])"
  by (simp add: filter_sql_def ustr_def)

lemma fetch_query_eq:
  "fetch_query (record_transformer_queries to_int args) =
     select_records @ filter_sql (arg_category args) (arg_search args)
     @ ustr '' ORDER BY ''
     @ validate_sort_by (args_get (arg_sort_by args) (ustr ''transaction_date''))
     @ ustr '' ''
     @ validate_sort_order (args_get (arg_sort_order args) (ustr ''desc''))
     @ ustr '' LIMIT %s OFFSET %s''"
  by (simp add: record_transformer_queries_def Let_def filter_sql_text)

lemma count_query_eq:
  "count_query (record_transformer_queries to_int args) =
     select_count @ filter_sql (arg_category args) (arg_search args)"
  by (simp add: record_transformer_queries_def Let_def filter_sql_text)

lemma fetch_params_eq:
  "fetch_params (record_transformer_queries to_int args) =
     filter_values (arg_category args) (arg_search args)
     @ [PInt (pg_per_page (paginate to_int (arg_page args) (arg_per_page args))),
        PInt (pg_offset (paginate to_int (arg_page args) (arg_per_page args)))]"
  by (simp add: record_transformer_queries_def Let_def filter_values_def)

lemma count_params_eq:
  "count_params (record_transformer_queries to_int args) =
     filter_values (arg_category args) (arg_search args)"
  by (simp add: record_transformer_queries_def Let_def filter_values_def)

text \<open>
  C2. For every combination of supplied and omitted \<^verbatim>\<open>category\<close> and \<^verbatim>\<open>search\<close>,
  the count statement carries the same \<^verbatim>\<open>WHERE\<close> text (category equality and
  case-insensitive description match, joined by \<^verbatim>\<open>AND\<close>) and the same bound values as the
  row-fetch statement; the row-fetch statement adds only \<^verbatim>\<open>ORDER BY\<close>, \<^verbatim>\<open>LIMIT\<close> and
  \<^verbatim>\<open>OFFSET\<close> with their two trailing parameters.
\<close>

theorem count_query_same_filter:
  "fetch_query (record_transformer_queries to_int args) =
     select_records @ filter_sql (arg_category args) (arg_search args)
     @ ustr '' ORDER BY ''
     @ validate_sort_by (args_get (arg_sort_by args) (ustr ''transaction_date''))
     @ ustr '' ''
     @ validate_sort_order (args_get (arg_sort_order args) (ustr ''desc''))
     @ ustr '' LIMIT %s OFFSET %s''
   \<and> count_query (record_transformer_queries to_int args) =
     select_count @ filter_sql (arg_category args) (arg_search args)
   \<and> fetch_params (record_transformer_queries to_int args) =
     filter_values (arg_category args) (arg_search args)
     @ [PInt (pg_per_page (paginate to_int (arg_page args) (arg_per_page args))),
        PInt (pg_offset (paginate to_int (arg_page args) (arg_per_page args)))]
   \<and> count_params (record_transformer_queries to_int args) =
     filter_values (arg_category args) (arg_search args)"
  using fetch_query_eq [of to_int args] count_query_eq [of to_int args]
    fetch_params_eq [of to_int args] count_params_eq [of to_int args]
  by simp

lemma validate_sort_by_allowed: "validate_sort_by sort_by \<in> set valid_sort_fields"
  by (simp add: validate_sort_by_def valid_sort_fields_def)

lemma validate_sort_order_allowed:
  "validate_sort_order sort_order \<in> {ustr ''asc'', ustr ''desc''}"
  by (simp add: validate_sort_order_def)

text \<open>
  C5. A \<^verbatim>\<open>sort_by\<close> outside the allow-list of 8 fields becomes \<^verbatim>\<open>transaction_date\<close>,
  a \<^verbatim>\<open>sort_order\<close> other than \<^verbatim>\<open>asc\<close> and \<^verbatim>\<open>desc\<close> becomes \<^verbatim>\<open>desc\<close>, and the
  row-fetch statement is made of fixed text, an allow-listed column and one of the two
  directions: no other part of the request reaches the query text.
\<close>

theorem sort_allow_list:
  "(sort_by \<notin> set valid_sort_fields \<longrightarrow> validate_sort_by sort_by = ustr ''transaction_date'')
   \<and> (sort_order \<notin> {ustr ''asc'', ustr ''desc''}
        \<longrightarrow> validate_sort_order sort_order = ustr ''desc'')
   \<and> validate_sort_by sort_by \<in> set valid_sort_fields
   \<and> validate_sort_order sort_order \<in> {ustr ''asc'', ustr ''desc''}
   \<and> valid_sort_fields =
       [ustr ''record_id_bank'', ustr ''transaction_date'', ustr ''currency_date'',
        ustr ''account'', ustr ''description'', ustr ''amount'', ustr ''currency'',
        ustr ''category'']
   \<and> (\<exists>col dir. col \<in> set valid_sort_fields \<and> dir \<in> {ustr ''asc'', ustr ''desc''}
        \<and> (arg_sort_by args = Some sort_by \<and> sort_by \<notin> set valid_sort_fields
             \<longrightarrow> col = ustr ''transaction_date'')
        \<and> (arg_sort_order args = Some sort_order
             \<and> sort_order \<notin> {ustr ''asc'', ustr ''desc''} \<longrightarrow> dir = ustr ''desc'')
        \<and> fetch_query (record_transformer_queries to_int args) =
            select_records @ filter_sql (arg_category args) (arg_search args)
            @ ustr '' ORDER BY '' @ col @ ustr '' '' @ dir @ ustr '' LIMIT %s OFFSET %s'')"
proof -
  let ?col = "validate_sort_by (args_get (arg_sort_by args) (ustr ''transaction_date''))"
  let ?dir = "validate_sort_order (args_get (arg_sort_order args) (ustr ''desc''))"
  have col: "?col \<in> set valid_sort_fields"
    by (rule validate_sort_by_allowed)
  have dir: "?dir \<in> {ustr ''asc'', ustr ''desc''}"
    by (rule validate_sort_order_allowed)
  have col_fb: "arg_sort_by args = Some sort_by \<and> sort_by \<notin> set valid_sort_fields
                \<longrightarrow> ?col = ustr ''transaction_date''"
    by (simp add: args_get_def validate_sort_by_def)
  have dir_fb: "arg_sort_order args = Some sort_order
                \<and> sort_order \<notin> {ustr ''asc'', ustr ''desc''} \<longrightarrow> ?dir = ustr ''desc''"
    by (simp add: args_get_def validate_sort_order_def)
  have ex: "\<exists>col dir. col \<in> set valid_sort_fields \<and> dir \<in> {ustr ''asc'', ustr ''desc''}
        \<and> (arg_sort_by args = Some sort_by \<and> sort_by \<notin> set valid_sort_fields
             \<longrightarrow> col = ustr ''transaction_date'')
        \<and> (arg_sort_order args = Some sort_order
             \<and> sort_order \<notin> {ustr ''asc'', ustr ''desc''} \<longrightarrow> dir = ustr ''desc'')
        \<and> fetch_query (record_transformer_queries to_int args) =
            select_records @ filter_sql (arg_category args) (arg_search args)
            @ ustr '' ORDER BY '' @ col @ ustr '' '' @ dir @ ustr '' LIMIT %s OFFSET %s''"
    using col dir col_fb dir_fb fetch_query_eq [of to_int args] by blast
  have a: "sort_by \<notin> set valid_sort_fields
           \<longrightarrow> validate_sort_by sort_by = ustr ''transaction_date''"
    by (simp add: validate_sort_by_def)
  have b: "sort_order \<notin> {ustr ''asc'', ustr ''desc''}
           \<longrightarrow> validate_sort_order sort_order = ustr ''desc''"
    by (simp add: validate_sort_order_def)
  show ?thesis
    using a b ex validate_sort_by_allowed [of sort_by]
      validate_sort_order_allowed [of sort_order] valid_sort_fields_def
    by blast
qed

theorem sort_allow_list_witness:
  "ustr ''drop table'' \<notin> set valid_sort_fields
   \<and> ustr ''sideways'' \<notin> {ustr ''asc'', ustr ''desc''}
   \<and> validate_sort_by (ustr ''drop table'') = ustr ''transaction_date''
   \<and> validate_sort_order (ustr ''sideways'') = ustr ''desc''
   \<and> fetch_query (record_transformer_queries (\<lambda>s. None)
        \<lparr>arg_page = None, arg_per_page = None, arg_category = None, arg_search = None,
         arg_sort_by = Some (ustr ''drop table''),
         arg_sort_order = Some (ustr ''sideways'')\<rparr>)
      = select_records @ ustr '' ORDER BY transaction_date desc LIMIT %s OFFSET %s''"
proof -
  have n1: "ustr ''drop table'' \<notin> set valid_sort_fields"
    by (simp add: valid_sort_fields_def ustr_def)
  have n2: "ustr ''sideways'' \<notin> {ustr ''asc'', ustr ''desc''}"
    by (simp add: ustr_def)
  from sort_allow_list [of "ustr ''drop table''" "ustr ''sideways''"
      "\<lparr>arg_page = None, arg_per_page = None, arg_category = None, arg_search = None,
         arg_sort_by = Some (ustr ''drop table''),
         arg_sort_order = Some (ustr ''sideways'')\<rparr>" "\<lambda>s. None"]
  show ?thesis
    using n1 n2
    by (auto simp: filter_sql_def truthy_def ustr_append ustr_Nil
        ustr_append [symmetric] simp del: append_assoc)
qed

subsection \<open>Bulk mutations\<close>

lemma str_split_not_Nil: "str_split sep s \<noteq> []"
  by (induction s) (auto split: list.splits)

lemma join_str_split: "join [sep] (str_split sep s) = s"
proof (induction s)
  case Nil
  then show ?case by simp
next
  case (Cons c cs)
  obtain p ps where sp: "str_split sep cs = p # ps"
    using str_split_not_Nil [of sep cs] by (cases "str_split sep cs") auto
  show ?case
  proof (cases "c = sep")
    case True
    then show ?thesis using Cons sp by simp
  next
    case False
    then show ?thesis using Cons sp by (cases ps) auto
  qed
qed

lemma str_split_no_sep: "p \<in> set (str_split sep s) \<Longrightarrow> sep \<notin> set p"
  by (induction s arbitrary: p) (auto split: if_splits list.splits)

lemma set_str_strip: "set (str_strip s) \<subseteq> set s"
proof -
  have "set (str_strip s) \<subseteq> set (dropWhile is_space s)"
    unfolding str_strip_def using set_dropWhileD by fastforce
  also have "\<dots> \<subseteq> set s"
    using set_dropWhileD by fastforce
  finally show ?thesis .
qed

lemma hd_dropWhile_rev:
  "rev (dropWhile P (rev ys)) \<noteq> [] \<Longrightarrow> hd (rev (dropWhile P (rev ys))) = hd ys"
proof (induction ys rule: rev_induct)
  case Nil
  then show ?case by simp
next
  case (snoc x xs)
  then show ?case by (cases xs) (auto split: if_splits)
qed

lemma str_strip_ends:
  assumes "str_strip s \<noteq> []"
  shows "\<not> is_space (hd (str_strip s))" and "\<not> is_space (last (str_strip s))"
proof -
  let ?ys = "dropWhile is_space s"
  have ne: "rev (dropWhile is_space (rev ?ys)) \<noteq> []"
    using assms by (simp add: str_strip_def)
  have "?ys \<noteq> []"
  proof
    assume e: "?ys = []"
    have "rev (dropWhile is_space (rev ?ys)) = []"
      unfolding e by simp
    then show False using ne by simp
  qed
  then have "\<not> is_space (hd ?ys)" by (rule hd_dropWhile)
  then show "\<not> is_space (hd (str_strip s))"
    using hd_dropWhile_rev [OF ne] by (simp add: str_strip_def)
  have "dropWhile is_space (rev ?ys) \<noteq> []" using ne by simp
  then have "\<not> is_space (hd (dropWhile is_space (rev ?ys)))" by (rule hd_dropWhile)
  then show "\<not> is_space (last (str_strip s))"
    using ne by (simp add: str_strip_def last_rev)
qed

lemma parse_record_ids_clean:
  assumes "i \<in> set (parse_record_ids s)"
  shows "i \<noteq> [] \<and> 44 \<notin> set i \<and> \<not> is_space (hd i) \<and> \<not> is_space (last i)"
proof -
  from assms obtain p where p: "p \<in> set (str_split 44 s)" and ne: "str_strip p \<noteq> []"
    and i: "i = str_strip p"
    by (auto simp: parse_record_ids_def)
  have "44 \<notin> set p" using p by (rule str_split_no_sep)
  then have "44 \<notin> set i" using set_str_strip [of p] i by auto
  then show ?thesis using ne i str_strip_ends [of p] by simp
qed

lemma update_categories_success:
  "snd (fst (update_categories faults rid cat db)) = 200 \<Longrightarrow>
   fst (fst (update_categories faults rid cat db)) =
     ustr ''Successfully updated '' @ str_nat (length (parse_record_ids (args_get rid [])))
     @ ustr '' records to category '' @ [39] @ args_get cat [] @ [39]"
  by (auto simp: update_categories_def update_categories_try_def Let_def
      split: if_splits option.splits)

lemma update_categories_succeeds:
  "truthy rid \<Longrightarrow> truthy cat \<Longrightarrow> parse_record_ids (args_get rid []) \<noteq> [] \<Longrightarrow>
   (\<forall>st. faults st = None) \<Longrightarrow>
   snd (fst (update_categories faults rid cat db)) = 200"
  by (simp add: update_categories_def update_categories_try_def Let_def)

lemma update_categories_fault:
  assumes "faults Connect \<noteq> None \<or> faults OpenCursor \<noteq> None \<or> faults (Execute 0) \<noteq> None"
  shows "snd (update_categories faults rid cat db) = db"
    and "snd (fst (update_categories faults rid cat db)) \<noteq> 200"
    and "truthy rid \<and> truthy cat \<and> parse_record_ids (args_get rid []) \<noteq> []
         \<longrightarrow> snd (fst (update_categories faults rid cat db)) = 500"
  using assms
  by (auto simp: update_categories_def update_categories_try_def Let_def split: option.splits)

lemma delete_records_fault:
  assumes "faults Connect \<noteq> None \<or> faults OpenCursor \<noteq> None \<or> faults (Execute 0) \<noteq> None"
  shows "snd (delete_records faults rid db) = db"
    and "snd (fst (delete_records faults rid db)) \<noteq> 200"
    and "truthy rid \<and> parse_record_ids (args_get rid []) \<noteq> []
         \<longrightarrow> snd (fst (delete_records faults rid db)) = 500"
  using assms
  by (auto simp: delete_records_def delete_records_try_def Let_def split: option.splits)

text \<open>
  C10. When connecting, opening the cursor or executing the \<^verbatim>\<open>UPDATE\<close> or \<^verbatim>\<open>DELETE\<close>
  raises, the commit is never reached: the table is left as it was and the endpoint does
  not report success; a request that passed validation gets status 500.
\<close>

theorem mutations_atomic:
  "faults Connect \<noteq> None \<or> faults OpenCursor \<noteq> None \<or> faults (Execute 0) \<noteq> None \<Longrightarrow>
     snd (update_categories faults rid cat db) = db
     \<and> snd (fst (update_categories faults rid cat db)) \<noteq> 200
     \<and> (truthy rid \<and> truthy cat \<and> parse_record_ids (args_get rid []) \<noteq> []
          \<longrightarrow> snd (fst (update_categories faults rid cat db)) = 500)
     \<and> snd (delete_records faults rid db) = db
     \<and> snd (fst (delete_records faults rid db)) \<noteq> 200
     \<and> (truthy rid \<and> parse_record_ids (args_get rid []) \<noteq> []
          \<longrightarrow> snd (fst (delete_records faults rid db)) = 500)"
  using update_categories_fault [of faults rid cat db] delete_records_fault [of faults rid db]
  by blast

theorem mutations_atomic_witness:
  "update_categories (\<lambda>st. if st = Execute 0 then Some (ustr ''connection lost'') else None)
      (Some (ustr ''A'')) (Some (ustr ''X'')) [row_A]
     = ((ustr ''Error updating categories: connection lost'', 500), [row_A])
   \<and> delete_records (\<lambda>st. if st = Execute 0 then Some (ustr ''connection lost'') else None)
      (Some (ustr ''A'')) [row_A]
     = ((ustr ''Error deleting records: connection lost'', 500), [row_A])
   \<and> update_categories (\<lambda>st. None) (Some (ustr ''A'')) (Some (ustr ''X'')) [row_A]
     = ((ustr ''Successfully updated 1 records to category '' @ [39] @ ustr ''X'' @ [39], 200),
        [row_A\<lparr>category := Some (ustr ''X'')\<rparr>])
   \<and> delete_records (\<lambda>st. None) (Some (ustr ''A'')) [row_A]
     = ((ustr ''Successfully deleted 1 records'', 200), [])"
proof -
  let ?f = "\<lambda>st. if st = Execute 0 then Some (ustr ''connection lost'') else None"
  note m = mutations_atomic [of ?f "Some (ustr ''A'')" "Some (ustr ''X'')" "[row_A]"]
  have u: "update_categories ?f (Some (ustr ''A'')) (Some (ustr ''X'')) [row_A]
     = ((ustr ''Error updating categories: connection lost'', 500), [row_A])"
    using m by (simp add: update_categories_def update_categories_try_def truthy_def
        args_get_def parse_record_ids_def str_strip_def is_space_def ustr_def)
  have d: "delete_records ?f (Some (ustr ''A'')) [row_A]
     = ((ustr ''Error deleting records: connection lost'', 500), [row_A])"
    using m by (simp add: delete_records_def delete_records_try_def truthy_def
        args_get_def parse_record_ids_def str_strip_def is_space_def ustr_def)
  have u2: "update_categories (\<lambda>st. None) (Some (ustr ''A'')) (Some (ustr ''X'')) [row_A]
     = ((ustr ''Successfully updated 1 records to category '' @ [39] @ ustr ''X'' @ [39], 200),
        [row_A\<lparr>category := Some (ustr ''X'')\<rparr>])"
    by (simp add: update_categories_def update_categories_try_def truthy_def
        args_get_def parse_record_ids_def str_strip_def is_space_def ustr_def
        str_nat.simps sql_update_def id_matches_def row_A_def)
  have d2: "delete_records (\<lambda>st. None) (Some (ustr ''A'')) [row_A]
     = ((ustr ''Successfully deleted 1 records'', 200), [])"
    by (simp add: delete_records_def delete_records_try_def truthy_def
        args_get_def parse_record_ids_def str_strip_def is_space_def ustr_def
        str_nat.simps sql_delete_def id_matches_def row_A_def)
  show ?thesis using u d u2 d2 by simp
qed

text \<open>
  C6. The \<^verbatim>\<open>record_ids\<close> field is split on commas (the pieces joined by commas give the
  field back), each piece is stripped and the empty ones are dropped, so every id is
  non-empty, has no comma and neither starts nor ends with whitespace; \<^verbatim>\<open>"A, B ,,C"\<close> gives
  the three ids A, B and C. A successful answer reports the number of parsed ids, whatever
  the table holds.
\<close>

theorem parse_record_ids_count:
  "parse_record_ids (ustr ''A, B ,,C'') = [ustr ''A'', ustr ''B'', ustr ''C'']
   \<and> join [44] (str_split 44 s) = s
   \<and> parse_record_ids s = map str_strip (filter (\<lambda>p. str_strip p \<noteq> []) (str_split 44 s))
   \<and> (\<forall>i \<in> set (parse_record_ids s).
        i \<noteq> [] \<and> 44 \<notin> set i \<and> \<not> is_space (hd i) \<and> \<not> is_space (last i))
   \<and> (truthy rid \<and> truthy cat \<and> parse_record_ids (args_get rid []) \<noteq> []
        \<and> (\<forall>st. faults st = None)
        \<longrightarrow> snd (fst (update_categories faults rid cat db)) = 200)
   \<and> (snd (fst (update_categories faults rid cat db)) = 200
        \<longrightarrow> fst (fst (update_categories faults rid cat db)) =
            ustr ''Successfully updated ''
            @ str_nat (length (parse_record_ids (args_get rid [])))
            @ ustr '' records to category '' @ [39] @ args_get cat [] @ [39])
   \<and> str_nat 3 = ustr ''3''"
proof -
  have a: "parse_record_ids (ustr ''A, B ,,C'') = [ustr ''A'', ustr ''B'', ustr ''C'']"
    by (simp add: parse_record_ids_def ustr_def str_strip_def is_space_def)
  have b: "str_nat 3 = ustr ''3''"
    by (simp add: str_nat.simps ustr_def)
  have c: "parse_record_ids s = map str_strip (filter (\<lambda>p. str_strip p \<noteq> []) (str_split 44 s))"
    by (simp add: parse_record_ids_def)
  show ?thesis
    using a b c join_str_split [of 44 s] parse_record_ids_clean [of _ s]
      update_categories_succeeds [of rid cat faults db]
      update_categories_success [of faults rid cat db]
    by blast
qed

theorem parse_record_ids_count_witness:
  "truthy (Some (ustr ''A, B ,,C'')) \<and> truthy (Some (ustr ''X''))
   \<and> parse_record_ids (ustr ''A, B ,,C'') = [ustr ''A'', ustr ''B'', ustr ''C'']
   \<and> update_categories (\<lambda>st. None) (Some (ustr ''A, B ,,C'')) (Some (ustr ''X'')) []
     = ((ustr ''Successfully updated 3 records to category '' @ [39] @ ustr ''X'' @ [39], 200),
        [])
   \<and> update_categories (\<lambda>st. None) (Some (ustr ''A, B ,,C'')) (Some (ustr ''X'')) [row_A]
     = ((ustr ''Successfully updated 3 records to category '' @ [39] @ ustr ''X'' @ [39], 200),
        [row_A\<lparr>category := Some (ustr ''X'')\<rparr>])"
proof -
  note w = parse_record_ids_count [of "ustr ''A, B ,,C''" "Some (ustr ''A, B ,,C'')" "Some (ustr ''X'')"
      "\<lambda>st. None"]
  have t: "truthy (Some (ustr ''A, B ,,C''))" "truthy (Some (ustr ''X''))"
    by (simp_all add: truthy_def ustr_def)
  have p: "parse_record_ids (ustr ''A, B ,,C'') = [ustr ''A'', ustr ''B'', ustr ''C'']"
    using w [of "[]"] by simp
  have u1: "update_categories (\<lambda>st. None) (Some (ustr ''A, B ,,C'')) (Some (ustr ''X'')) []
     = ((ustr ''Successfully updated 3 records to category '' @ [39] @ ustr ''X'' @ [39], 200),
        [])"
    using w [of "[]"]
    by (simp add: update_categories_def update_categories_try_def truthy_def
        args_get_def parse_record_ids_def str_strip_def is_space_def ustr_def
        str_nat.simps sql_update_def)
  have u2: "update_categories (\<lambda>st. None) (Some (ustr ''A, B ,,C'')) (Some (ustr ''X'')) [row_A]
     = ((ustr ''Successfully updated 3 records to category '' @ [39] @ ustr ''X'' @ [39], 200),
        [row_A\<lparr>category := Some (ustr ''X'')\<rparr>])"
    using w [of "[row_A]"]
    by (simp add: update_categories_def update_categories_try_def truthy_def
        args_get_def parse_record_ids_def str_strip_def is_space_def ustr_def
        str_nat.simps sql_update_def id_matches_def row_A_def)
  show ?thesis using t p u1 u2 by simp
qed

subsection \<open>Reports\<close>

lemma choose_no_filter:
  "time_period \<notin> {ustr ''day'', ustr ''week'', ustr ''month'', ustr ''year''} \<Longrightarrow>
   choose_date_filter time_period None None = NoDateFilter"
  by (simp add: choose_date_filter_def truthy_def)

lemma get_spending_data_unfiltered:
  "time_period \<notin> {ustr ''day'', ustr ''week'', ustr ''month'', ustr ''year''} \<Longrightarrow>
   \<forall>st. faults st = None \<Longrightarrow>
   get_spending_data faults cal time_period None None None db =
     foldl format_record ([], 0) (spending_query cal NoDateFilter None db)"
  by (simp add: get_spending_data_def get_spending_data_try_def choose_no_filter
      date_filter_ok_def Let_def)

lemma foldl_format_record:
  "foldl format_record (acc, t) records =
     (acc @ map (\<lambda>r. \<lparr>item_category = (case fst r of None \<Rightarrow> ustr ''Uncategorized'' | Some c \<Rightarrow> c),
                      item_amount = (case snd r of None \<Rightarrow> 0 | Some a \<Rightarrow> a)\<rparr>) records,
      t + sum_list (map (\<lambda>r. case snd r of None \<Rightarrow> 0 | Some a \<Rightarrow> a) records))"
  by (induction records arbitrary: acc t) (simp_all add: format_record_def Let_def)

lemma total_is_sum:
  "snd (get_spending_data faults cal tp cf sd ed db)
     = sum_list (map item_amount (fst (get_spending_data faults cal tp cf sd ed db)))"
proof (cases "get_spending_data_try faults cal tp cf sd ed db")
  case (Inl e)
  then show ?thesis by (simp add: get_spending_data_def)
next
  case (Inr r)
  then have "r = foldl format_record ([], 0)
      (spending_query cal (choose_date_filter tp sd ed) cf db)"
    by (auto simp: get_spending_data_try_def Let_def split: option.splits if_splits)
  then show ?thesis using Inr
    by (simp add: get_spending_data_def foldl_format_record comp_def)
qed

lemma spending_example_query:
  assumes "category r1 = Some (ustr ''Food'')" "amount r1 = Some (-50)"
    "category r2 = Some (ustr ''Food'')" "amount r2 = Some (-30)"
    "category r3 = None" "amount r3 = Some 200"
    "rows \<in> set [[r1, r2, r3], [r1, r3, r2], [r2, r1, r3], [r2, r3, r1], [r3, r1, r2], [r3, r2, r1]]"
  shows "spending_query cal NoDateFilter None rows =
     [(Some (ustr ''Uncategorized''), Some 200), (Some (ustr ''Food''), Some (-80))]"
  using assms
  by (auto simp: spending_query_def category_holds_def truthy_def Let_def sql_sum_def
      List.map_filter_simps order_by_def desc_nulls_first_def)

text \<open>
  C3. With no date or category restriction and a store that answers, the rows Food -50,
  Food -30 and an uncategorized 200, in any order, give the items Uncategorized 200 and
  Food -80, in that order, and the total 120, which is the sum of the amounts returned.
\<close>

theorem spending_example:
  assumes "time_period \<notin> {ustr ''day'', ustr ''week'', ustr ''month'', ustr ''year''}"
    and "\<forall>st. faults st = None"
    and "category r1 = Some (ustr ''Food'')" and "amount r1 = Some (-50)"
    and "category r2 = Some (ustr ''Food'')" and "amount r2 = Some (-30)"
    and "category r3 = None" and "amount r3 = Some 200"
    and "rows \<in> set [[r1, r2, r3], [r1, r3, r2], [r2, r1, r3], [r2, r3, r1], [r3, r1, r2],
                      [r3, r2, r1]]"
  shows "get_spending_data faults cal time_period None None None rows =
           ([\<lparr>item_category = ustr ''Uncategorized'', item_amount = 200\<rparr>,
             \<lparr>item_category = ustr ''Food'', item_amount = - 80\<rparr>], 120)
         \<and> snd (get_spending_data faults cal time_period None None None rows) =
           sum_list (map item_amount
             (fst (get_spending_data faults cal time_period None None None rows)))"
proof -
  have "get_spending_data faults cal time_period None None None rows =
      foldl format_record ([], 0) (spending_query cal NoDateFilter None rows)"
    using assms(1,2) by (rule get_spending_data_unfiltered)
  also have "spending_query cal NoDateFilter None rows =
      [(Some (ustr ''Uncategorized''), Some 200), (Some (ustr ''Food''), Some (-80))]"
    using assms(3-9) by (rule spending_example_query)
  finally have "get_spending_data faults cal time_period None None None rows =
           ([\<lparr>item_category = ustr ''Uncategorized'', item_amount = 200\<rparr>,
             \<lparr>item_category = ustr ''Food'', item_amount = - 80\<rparr>], 120)"
    by (simp add: format_record_def)
  then show ?thesis by simp
qed

theorem spending_example_witness:
  "\<forall>cal. get_spending_data (\<lambda>st. None) cal (ustr ''all'') None None None
      [row_of (Some (ustr ''Food'')) None (-50), row_of (Some (ustr ''Food'')) None (-30),
       row_of None None 200] =
     ([\<lparr>item_category = ustr ''Uncategorized'', item_amount = 200\<rparr>,
       \<lparr>item_category = ustr ''Food'', item_amount = - 80\<rparr>], 120)"
proof
  fix cal
  have tp: "ustr ''all'' \<notin> {ustr ''day'', ustr ''week'', ustr ''month'', ustr ''year''}"
    by (simp add: ustr_def)
  show "get_spending_data (\<lambda>st. None) cal (ustr ''all'') None None None
      [row_of (Some (ustr ''Food'')) None (-50), row_of (Some (ustr ''Food'')) None (-30),
       row_of None None 200] =
     ([\<lparr>item_category = ustr ''Uncategorized'', item_amount = 200\<rparr>,
       \<lparr>item_category = ustr ''Food'', item_amount = - 80\<rparr>], 120)"
    using spending_example [of "ustr ''all''" "\<lambda>st. None"
        "row_of (Some (ustr ''Food'')) None (-50)" "row_of (Some (ustr ''Food'')) None (-30)"
        "row_of None None 200"
        "[row_of (Some (ustr ''Food'')) None (-50), row_of (Some (ustr ''Food'')) None (-30),
          row_of None None 200]" cal] tp
    by (simp add: row_of_def)
qed

text \<open>
  C1. The groups are those of the stored category, so a row without a category and a row
  whose category is the string Uncategorized are summed apart: the answer has two items,
  both labelled Uncategorized, where the claim asks for one item of 250.
\<close>

theorem uncategorized_groups_not_merged:
  "get_spending_data (\<lambda>st. None) cal (ustr ''all'') None None None
      [row_of None None 200, row_of (Some (ustr ''Uncategorized'')) None 50] =
     ([\<lparr>item_category = ustr ''Uncategorized'', item_amount = 200\<rparr>,
       \<lparr>item_category = ustr ''Uncategorized'', item_amount = 50\<rparr>], 250)"
proof -
  have tp: "ustr ''all'' \<notin> {ustr ''day'', ustr ''week'', ustr ''month'', ustr ''year''}"
    by (simp add: ustr_def)
  have q: "spending_query cal NoDateFilter None
      [row_of None None 200, row_of (Some (ustr ''Uncategorized'')) None 50] =
      [(Some (ustr ''Uncategorized''), Some 200), (Some (ustr ''Uncategorized''), Some 50)]"
    by (simp add: spending_query_def category_holds_def truthy_def Let_def sql_sum_def
      List.map_filter_simps order_by_def desc_nulls_first_def row_of_def)
  show ?thesis
    using get_spending_data_unfiltered [OF tp, of "\<lambda>st. None" cal]
    by (simp add: q format_record_def)
qed

lemma get_spending_data_fault:
  assumes "st \<in> set [Connect, OpenCursor, Execute 0, Fetch 0, CloseCursor, CloseConn]"
    and "faults st = Some msg"
  shows "get_spending_data faults cal tp cf sd ed db = ([], 0)"
  using assms
  by (auto simp: get_spending_data_def get_spending_data_try_def Let_def split: option.splits)

lemma get_spending_data_bad_date:
  assumes "\<not> date_filter_ok cal (choose_date_filter tp sd ed)"
  shows "get_spending_data faults cal tp cf sd ed db = ([], 0)"
  using assms
  by (auto simp: get_spending_data_def get_spending_data_try_def Let_def split: option.splits)

lemma get_monthly_yearly_balances_fault:
  assumes "st \<in> set [Connect, OpenCursor, Execute 0, Fetch 0, Execute 1, Fetch 1, CloseCursor,
                      CloseConn]"
    and "faults st = Some msg"
  shows "get_monthly_yearly_balances faults db = ([], [])"
  using assms
  by (auto simp: get_monthly_yearly_balances_def get_monthly_yearly_balances_try_def Let_def
      split: option.splits sum.splits)

text \<open>
  C7. Whenever the body of \<^verbatim>\<open>get_spending_data\<close> raises, at any call into the driver or
  because the store rejects a date parameter, the caller gets the empty list and the total
  0; whenever the body of \<^verbatim>\<open>get_monthly_yearly_balances\<close> raises, it gets two empty
  lists. Neither function lets the exception through.
\<close>

theorem report_errors_swallowed:
  "(get_spending_data_try faults cal tp cf sd ed db = Inl e
      \<longrightarrow> get_spending_data faults cal tp cf sd ed db = ([], 0))
   \<and> (st \<in> set [Connect, OpenCursor, Execute 0, Fetch 0, CloseCursor, CloseConn]
       \<and> faults st = Some msg
      \<longrightarrow> get_spending_data faults cal tp cf sd ed db = ([], 0))
   \<and> (\<not> date_filter_ok cal (choose_date_filter tp sd ed)
      \<longrightarrow> get_spending_data faults cal tp cf sd ed db = ([], 0))
   \<and> (get_monthly_yearly_balances_try faults db = Inl e'
      \<longrightarrow> get_monthly_yearly_balances faults db = ([], []))
   \<and> (st' \<in> set [Connect, OpenCursor, Execute 0, Fetch 0, Execute 1, Fetch 1, CloseCursor,
                  CloseConn]
       \<and> faults st' = Some msg'
      \<longrightarrow> get_monthly_yearly_balances faults db = ([], []))"
  using get_spending_data_fault [of st faults msg cal tp cf sd ed db]
    get_spending_data_bad_date [of cal tp sd ed faults cf db]
    get_monthly_yearly_balances_fault [of st' faults msg' db]
  by (simp add: get_spending_data_def get_monthly_yearly_balances_def)

theorem report_errors_swallowed_witness:
  "\<forall>cal. get_spending_data
       (\<lambda>st. if st = Fetch 0 then Some (ustr ''connection lost'') else None)
       cal (ustr ''all'') None None None [row_A] = ([], 0)
     \<and> get_spending_data (\<lambda>st. None) cal (ustr ''all'') None None None [row_A] =
       ([\<lparr>item_category = ustr ''Uncategorized'', item_amount = 5\<rparr>], 5)
     \<and> get_monthly_yearly_balances
       (\<lambda>st. if st = Fetch 0 then Some (ustr ''connection lost'') else None)
       [row_of None (Some \<lparr>d_year = 2024, d_month = 1, d_day = 15\<rparr>) 5] = ([], [])
     \<and> get_monthly_yearly_balances (\<lambda>st. None)
       [row_of None (Some \<lparr>d_year = 2024, d_month = 1, d_day = 15\<rparr>) 5] =
       ([\<lparr>mb_year = 2024, mb_month = 1, mb_month_name = ustr ''January'', mb_amount = 5,
          mb_status = ustr ''positive''\<rparr>],
        [\<lparr>yb_year = 2024, yb_amount = 5, yb_status = ustr ''positive''\<rparr>])"
proof
  fix cal
  let ?f = "\<lambda>st. if st = Fetch 0 then Some (ustr ''connection lost'') else None"
  let ?r = "row_of None (Some \<lparr>d_year = 2024, d_month = 1, d_day = 15\<rparr>) 5"
  note w = report_errors_swallowed [where faults = ?f and cal = cal and st = "Fetch 0"
      and msg = "ustr ''connection lost''" and st' = "Fetch 0"
      and msg' = "ustr ''connection lost''"]
  have a: "get_spending_data ?f cal (ustr ''all'') None None None [row_A] = ([], 0)"
    using w [of "ustr ''all''" None None None "[row_A]"] by simp
  have b: "get_monthly_yearly_balances ?f [?r] = ([], [])"
    using w [of "ustr ''all''" None None None "[?r]"] by simp
  have tp: "ustr ''all'' \<notin> {ustr ''day'', ustr ''week'', ustr ''month'', ustr ''year''}"
    by (simp add: ustr_def)
  have c: "get_spending_data (\<lambda>st. None) cal (ustr ''all'') None None None [row_A] =
       ([\<lparr>item_category = ustr ''Uncategorized'', item_amount = 5\<rparr>], 5)"
    using get_spending_data_unfiltered [OF tp, of "\<lambda>st. None" cal]
    by (simp add: spending_query_def category_holds_def truthy_def Let_def sql_sum_def
      List.map_filter_simps order_by_def desc_nulls_first_def row_A_def format_record_def)
  have d: "get_monthly_yearly_balances (\<lambda>st. None) [?r] =
       ([\<lparr>mb_year = 2024, mb_month = 1, mb_month_name = ustr ''January'', mb_amount = 5,
          mb_status = ustr ''positive''\<rparr>],
        [\<lparr>yb_year = 2024, yb_amount = 5, yb_status = ustr ''positive''\<rparr>])"
    by (simp add: get_monthly_yearly_balances_def get_monthly_yearly_balances_try_def
        monthly_query_def yearly_query_def year_month_def Let_def sql_sum_def
        List.map_filter_simps order_by_def row_of_def balance_status_def month_names_def)
  show "get_spending_data ?f cal (ustr ''all'') None None None [row_A] = ([], 0)
     \<and> get_spending_data (\<lambda>st. None) cal (ustr ''all'') None None None [row_A] =
       ([\<lparr>item_category = ustr ''Uncategorized'', item_amount = 5\<rparr>], 5)
     \<and> get_monthly_yearly_balances ?f [?r] = ([], [])
     \<and> get_monthly_yearly_balances (\<lambda>st. None) [?r] =
       ([\<lparr>mb_year = 2024, mb_month = 1, mb_month_name = ustr ''January'', mb_amount = 5,
          mb_status = ustr ''positive''\<rparr>],
        [\<lparr>yb_year = 2024, yb_amount = 5, yb_status = ustr ''positive''\<rparr>])"
    using a b c d by simp
qed

end
